theory Spec2Isabelle
  imports Complex_Main "HOL-Library.Char_ord" "HOL-Library.List_Lexorder"
begin

section \<open>Numbers\<close>

text \<open>
  The analytics compute on pandas columns of integers and on the float64 values that
  true division and \<open>mean()\<close> produce from them. A float64 value is modelled as an exact
  rational or one of the three special values; the rounding error of binary64 arithmetic
  on finite values and overflow to infinity are not modelled.
\<close>

datatype fnum = Fin rat | PInf | NInf | NaN

datatype error = KeyError | ValueError | OverflowError | IndexError | FitError

fun fneg :: "fnum \<Rightarrow> fnum" where
  "fneg (Fin a) = Fin (- a)"
| "fneg PInf = NInf"
| "fneg NInf = PInf"
| "fneg NaN = NaN"

fun fadd :: "fnum \<Rightarrow> fnum \<Rightarrow> fnum" where
  "fadd (Fin a) (Fin b) = Fin (a + b)"
| "fadd NaN y = NaN"
| "fadd x NaN = NaN"
| "fadd PInf NInf = NaN"
| "fadd NInf PInf = NaN"
| "fadd PInf y = PInf"
| "fadd NInf y = NInf"
| "fadd (Fin a) y = y"

fun fmul :: "fnum \<Rightarrow> fnum \<Rightarrow> fnum" where
  "fmul (Fin a) (Fin b) = Fin (a * b)"
| "fmul NaN y = NaN"
| "fmul x NaN = NaN"
| "fmul (Fin a) y = (if a = 0 then NaN else if 0 < a then y else fneg y)"
| "fmul x (Fin b) = (if b = 0 then NaN else if 0 < b then x else fneg x)"
| "fmul PInf y = y"
| "fmul NInf y = fneg y"

text \<open>
  Division as numpy and pandas do it on float64 and on integer columns: a zero divisor
  gives an infinity of the dividend's sign, and \<open>0 / 0\<close> gives NaN; nothing is raised.
\<close>

fun fdiv :: "fnum \<Rightarrow> fnum \<Rightarrow> fnum" where
  "fdiv (Fin a) (Fin b) =
     (if b = 0 then (if 0 < a then PInf else if a < 0 then NInf else NaN) else Fin (a / b))"
| "fdiv NaN y = NaN"
| "fdiv x NaN = NaN"
| "fdiv (Fin a) y = Fin 0"
| "fdiv x (Fin b) = (if 0 \<le> b then x else fneg x)"
| "fdiv x y = NaN"

text \<open>Comparisons: every comparison with NaN is false.\<close>

fun flt :: "fnum \<Rightarrow> fnum \<Rightarrow> bool" where
  "flt (Fin a) (Fin b) = (a < b)"
| "flt NaN y = False"
| "flt x NaN = False"
| "flt x NInf = False"
| "flt PInf y = False"
| "flt x y = True"

fun fle :: "fnum \<Rightarrow> fnum \<Rightarrow> bool" where
  "fle (Fin a) (Fin b) = (a \<le> b)"
| "fle NaN y = False"
| "fle x NaN = False"
| "fle NInf y = True"
| "fle x PInf = True"
| "fle x y = False"

definition fgt :: "fnum \<Rightarrow> fnum \<Rightarrow> bool" where
  "fgt x y = flt y x"

definition fge :: "fnum \<Rightarrow> fnum \<Rightarrow> bool" where
  "fge x y = fle y x"

fun is_finite :: "fnum \<Rightarrow> bool" where
  "is_finite (Fin a) = True"
| "is_finite x = False"

definition of_col :: "int \<Rightarrow> fnum" where
  "of_col n = Fin (of_int n)"

text \<open>
  \<open>Series.mean()\<close> with its default \<open>skipna=True\<close>: NaN entries are left out of both
  the sum and the count, and a series with no entry left has mean NaN.
\<close>

definition mean :: "fnum list \<Rightarrow> fnum" where
  "mean xs =
     (let ys = filter (\<lambda>x. x \<noteq> NaN) xs
      in if ys = [] then NaN else fdiv (foldl fadd (Fin 0) ys) (Fin (of_nat (length ys))))"

text \<open>\<open>Series.max()\<close> of an integer column.\<close>

fun col_max :: "int list \<Rightarrow> fnum" where
  "col_max [] = NaN"
| "col_max (x # xs) = of_col (fold max xs x)"

text \<open>Python's \<open>int()\<close>: truncation toward zero; it raises on NaN and on the infinities.\<close>

definition trunc :: "rat \<Rightarrow> int" where
  "trunc x = (if 0 \<le> x then \<lfloor>x\<rfloor> else \<lceil>x\<rceil>)"

fun py_int :: "fnum \<Rightarrow> error + int" where
  "py_int (Fin a) = Inr (trunc a)"
| "py_int NaN = Inl ValueError"
| "py_int x = Inl OverflowError"

text \<open>An exception raised by a step ends the computation that the step is part of.\<close>

definition bind_err :: "error + 'a \<Rightarrow> ('a \<Rightarrow> error + 'b) \<Rightarrow> error + 'b" where
  "bind_err m f = (case m of Inl e \<Rightarrow> Inl e | Inr a \<Rightarrow> f a)"

section \<open>The table of shift records\<close>

text \<open>
  One row of the table. The columns the analytics never read (operator, product,
  cumulative output, downtime reason, remarks) are left out of the row; \<open>DateTime\<close> is
  the instant that \<open>pd.to_datetime\<close> builds from the row's date and the time part of its
  timestamp. The numeric columns hold integers, as the entry form produces them.
\<close>

record shift_record =
  Date :: string
  Shift :: string
  Machine_ID :: string
  Target_Output :: int
  Actual_Output :: int
  Defects :: int
  Downtime_Minutes :: int
  DateTime :: nat

text \<open>
  A DataFrame: the names of its columns and its rows, indexed by position (the default
  index that \<open>read_csv\<close> and \<open>concat(ignore_index=True)\<close> give). Reading a column whose
  name is absent raises \<open>KeyError\<close>.
\<close>

record dataframe =
  columns :: "string list"
  rows :: "shift_record list"

definition has_columns :: "dataframe \<Rightarrow> string list \<Rightarrow> bool" where
  "has_columns df cs = list_all (\<lambda>c. c \<in> set (columns df)) cs"

definition schema :: "string list" where
  "schema = [''Date'', ''Shift'', ''Machine_ID'', ''Operator_Name'', ''Product_Name'',
             ''Target_Output'', ''Actual_Output'', ''Cumulative_Output'', ''Defects'',
             ''Downtime_Minutes'', ''Downtime_Reason'', ''Remarks'', ''Timestamp'']"



definition select_machine :: "dataframe \<Rightarrow> string \<Rightarrow> shift_record list" where
  "select_machine df machine_id = filter (\<lambda>r. Machine_ID r = machine_id) (rows df)"

section \<open>The state outside the table\<close>

text \<open>
  The analytics read and change three things besides their arguments: the state of Python's
  global random generator, the file \<open>downtime_model.joblib\<close> and the standard output, to
  which the anomaly engine prints the machine and the exception it has caught. The
  generator is a tape of raw draws; \<open>randint a b\<close> and \<open>choice xs\<close> take the next draw and reduce it into their
  range, so that every value of the range is the result for some tape.
\<close>

datatype file_state = NoFile | LoadableFile | CorruptFile

record world =
  rng :: "nat list"
  model_file :: file_state
  stdout :: "(string \<times> error) list"

definition draw :: "nat list \<Rightarrow> nat \<times> nat list" where
  "draw g = (case g of [] \<Rightarrow> (0, []) | n # g' \<Rightarrow> (n, g'))"

definition randint :: "int \<Rightarrow> int \<Rightarrow> nat list \<Rightarrow> int \<times> nat list" where
  "randint a b g = (let (n, g') = draw g in (a + int (n mod nat (b - a + 1)), g'))"

definition choice :: "int list \<Rightarrow> nat list \<Rightarrow> int \<times> nat list" where
  "choice xs g = (let (n, g') = draw g in (xs ! (n mod length xs), g'))"

section \<open>Risk scorer\<close>

record machine_features =
  avg_downtime_24h :: fnum
  max_downtime_24h :: fnum
  downtime_frequency :: int
  production_efficiency :: rat
  total_defect_rate :: rat
  operation_hours :: nat
  has_recent_downtime :: int

text \<open>
  \<open>tail(n)\<close> of a frame: its last \<open>n\<close> rows. \<open>sort_values("DateTime")\<close> is the stable
  sort on the key; rows of equal instant keep the order of the table.
\<close>

definition tail :: "nat \<Rightarrow> 'a list \<Rightarrow> 'a list" where
  "tail n xs = drop (length xs - n) xs"

definition prepare_machine_features :: "dataframe \<Rightarrow> string \<Rightarrow> error + machine_features option" where
  "prepare_machine_features df machine_id =
     (if \<not> has_columns df [''Machine_ID''] then Inl KeyError
      else let machine_df = select_machine df machine_id in
      if machine_df = [] then Inr None
      else if \<not> has_columns df [''Date'', ''Timestamp'', ''Downtime_Minutes'', ''Actual_Output'',
                                  ''Target_Output'', ''Defects''] then Inl KeyError
      else let machine_df = sort_key DateTime machine_df;
               sum_actual = sum_list (map Actual_Output machine_df);
               sum_target = sum_list (map Target_Output machine_df);
               sum_defects = sum_list (map Defects machine_df);
               efficiency = (if 0 < sum_target then of_int sum_actual / of_int sum_target else 1);
               defect_rate = (if 0 < sum_actual then of_int sum_defects / of_int sum_actual else 0);
               recent_records = min 5 (length machine_df);
               recent = list_ex (\<lambda>r. 0 < Downtime_Minutes r) (tail recent_records machine_df)
           in Inr (Some \<lparr>
                avg_downtime_24h = mean (map (of_col \<circ> Downtime_Minutes) machine_df),
                max_downtime_24h = col_max (map Downtime_Minutes machine_df),
                downtime_frequency = int (length (filter (\<lambda>r. 0 < Downtime_Minutes r) machine_df)),
                production_efficiency = efficiency,
                total_defect_rate = defect_rate,
                operation_hours = length machine_df,
                has_recent_downtime = (if recent then 1 else 0)\<rparr>))"

text \<open>
  \<open>train_downtime_model\<close> writes the unfitted classifier to the model file; the classifier
  itself takes no part in the score.
\<close>

definition train_downtime_model :: "world \<Rightarrow> world" where
  "train_downtime_model w = w\<lparr>model_file := LoadableFile\<rparr>"

definition obtain_model :: "world \<Rightarrow> world" where
  "obtain_model w =
     (if model_file w = NoFile then train_downtime_model w
      else (case model_file w of LoadableFile \<Rightarrow> w | _ \<Rightarrow> train_downtime_model w))"

definition risk_score :: "machine_features \<Rightarrow> int" where
  "risk_score features =
     (let score = 0;
          score = score + min (downtime_frequency features * 10) 30;
          score = (if has_recent_downtime features = 1 then score + 20 else score);
          score = score + max 0 (min 40 (trunc ((1 - production_efficiency features) * 100)));
          score = score + min (trunc (total_defect_rate features * 100)) 10
      in min score 100)"

definition predict_downtime :: "dataframe \<Rightarrow> string \<Rightarrow> world \<Rightarrow> (error + int \<times> int) \<times> world" where
  "predict_downtime df machine_id w =
     (case prepare_machine_features df machine_id of
        Inl e \<Rightarrow> (Inl e, w)
      | Inr None \<Rightarrow>
          (let (score, g1) = randint 10 90 (rng w);
               (hours, g2) = choice [2, 4, 8, 12, 24] g1
           in (Inr (score, hours), w\<lparr>rng := g2\<rparr>))
      | Inr (Some features) \<Rightarrow>
          (let w' = obtain_model w;
               final_score = risk_score features;
               n = length (select_machine df machine_id);
               hours = (if 20 < n then 24 else if 10 < n then 12 else 4)
           in (Inr (final_score, hours), w')))"

section \<open>Target advisor\<close>

datatype advice = Insufficient_data | Can_increase | Maintain | Consider_adjustment

record target_result =
  optimal_target :: "int option"
  confidence :: int
  message :: advice

definition predict_production_targets :: "dataframe \<Rightarrow> string \<Rightarrow> error + target_result" where
  "predict_production_targets df machine_id =
     (if \<not> has_columns df [''Machine_ID''] then Inl KeyError
      else let machine_df = select_machine df machine_id in
      if machine_df = [] \<or> length machine_df < 3
      then Inr \<lparr>optimal_target = None, confidence = 0, message = Insufficient_data\<rparr>
      else if \<not> has_columns df [''Actual_Output'', ''Target_Output''] then Inl KeyError
      else let avg_efficiency =
                 mean (map (\<lambda>r. fdiv (of_col (Actual_Output r)) (of_col (Target_Output r))) machine_df);
               avg_output = mean (map (of_col \<circ> Actual_Output) machine_df);
               max_output = col_max (map Actual_Output machine_df)
           in if fge avg_efficiency (Fin (95 / 100)) then
                bind_err (py_int (fmul max_output (Fin (105 / 100)))) (\<lambda>a.
                bind_err (py_int (fmul avg_output (Fin (11 / 10)))) (\<lambda>b.
                  Inr \<lparr>optimal_target = Some (max a b), confidence = 80, message = Can_increase\<rparr>))
              else if fge avg_efficiency (Fin (8 / 10)) then
                bind_err (py_int (fdiv avg_output avg_efficiency)) (\<lambda>a.
                  Inr \<lparr>optimal_target = Some a, confidence = 70, message = Maintain\<rparr>)
              else
                bind_err (py_int (fmul avg_output (Fin (11 / 10)))) (\<lambda>a.
                  Inr \<lparr>optimal_target = Some a, confidence = 60, message = Consider_adjustment\<rparr>))"

section \<open>Feature deriver\<close>

text \<open>
  One row of the feature frame: the three ratios, the machine id and the position of the
  originating row in the table (the columns \<open>efficiency\<close>, \<open>defect_rate\<close>,
  \<open>downtime_per_unit\<close>, \<open>machine_id\<close> and \<open>index\<close>).
\<close>

record feature_row =
  f_efficiency :: fnum
  f_defect_rate :: fnum
  f_downtime_per_unit :: fnum
  f_machine_id :: string
  f_index :: nat

definition fillna :: "fnum \<Rightarrow> fnum" where
  "fillna x = (if x = NaN then Fin 0 else x)"

definition replace_inf :: "fnum \<Rightarrow> fnum" where
  "replace_inf x = (if x = PInf \<or> x = NInf then Fin 0 else x)"

definition numeric_cols :: "string list" where
  "numeric_cols = [''Target_Output'', ''Actual_Output'', ''Cumulative_Output'', ''Defects'',
                   ''Downtime_Minutes'']"

text \<open>
  \<open>groupby("Machine_ID")\<close>: the groups in ascending order of the key, each with its rows in
  table order and their positions.
\<close>

definition groupby :: "dataframe \<Rightarrow> (string \<times> (nat \<times> shift_record) list) list" where
  "groupby df =
     map (\<lambda>m. (m, filter (\<lambda>(i, r). Machine_ID r = m) (enumerate 0 (rows df))))
         (sort (remdups (map Machine_ID (rows df))))"

definition group_features :: "string \<Rightarrow> (nat \<times> shift_record) list \<Rightarrow> feature_row list" where
  "group_features machine_id grp =
     map (\<lambda>(i, r).
           \<lparr>f_efficiency =
              replace_inf (fillna (fdiv (of_col (Actual_Output r)) (of_col (Target_Output r)))),
            f_defect_rate =
              replace_inf (fillna (fdiv (of_col (Defects r)) (of_col (Actual_Output r)))),
            f_downtime_per_unit =
              replace_inf (fillna (fdiv (of_col (Downtime_Minutes r)) (of_col (Actual_Output r)))),
            f_machine_id = machine_id,
            f_index = i\<rparr>) grp"

definition prepare_anomaly_features :: "dataframe \<Rightarrow> error + (feature_row list \<times> dataframe) option" where
  "prepare_anomaly_features df =
     (if (columns df = [] \<or> rows df = []) \<or> length (rows df) < 5 then Inr None
      else if \<not> has_columns df numeric_cols then Inr None
      else if \<not> has_columns df [''Machine_ID''] then Inl KeyError
      else let all_features =
                 map (\<lambda>(machine_id, grp). group_features machine_id grp)
                     (filter (\<lambda>(machine_id, grp). \<not> length grp < 3) (groupby df))
           in if all_features = [] then Inr None
              else Inr (Some (concat all_features, df)))"

section \<open>Anomaly engine\<close>

text \<open>
  The attributed reason stands for the message; its arguments are the values that the
  message formats.
\<close>

datatype reason =
    Unusual_downtime int fnum
  | Efficiency_dropped fnum fnum
  | High_defect_rate fnum fnum
  | Output_below_target int int
  | Unusual_pattern

text \<open>
  \<open>determine_anomaly_reason\<close> is called on a row of a table whose numeric columns and
  machine column \<open>prepare_anomaly_features\<close> has found present.
\<close>

definition determine_anomaly_reason :: "shift_record \<Rightarrow> dataframe \<Rightarrow> reason" where
  "determine_anomaly_reason rec df =
     (let efficiency = (if 0 < Target_Output rec
                        then fdiv (of_col (Actual_Output rec)) (of_col (Target_Output rec))
                        else Fin 0);
          defect_rate = (if 0 < Actual_Output rec
                         then fdiv (of_col (Defects rec)) (of_col (Actual_Output rec))
                         else Fin 0);
          machine_data = select_machine df (Machine_ID rec);
          avg_efficiency =
            mean (map (\<lambda>r. fdiv (of_col (Actual_Output r)) (of_col (Target_Output r))) machine_data);
          avg_defect_rate =
            mean (map (\<lambda>r. fdiv (of_col (Defects r)) (of_col (Actual_Output r))) machine_data);
          avg_downtime = mean (map (of_col \<circ> Downtime_Minutes) machine_data)
      in if fgt (of_col (Downtime_Minutes rec)) (fmul avg_downtime (Fin 2))
            \<and> 10 < Downtime_Minutes rec
         then Unusual_downtime (Downtime_Minutes rec) avg_downtime
         else if flt efficiency (fmul avg_efficiency (Fin (7 / 10))) \<and> fgt avg_efficiency (Fin 0)
         then Efficiency_dropped efficiency avg_efficiency
         else if fgt defect_rate (fadd (fmul avg_defect_rate (Fin (15 / 10))) (Fin (5 / 100)))
                 \<and> fgt defect_rate (Fin (1 / 10))
         then High_defect_rate defect_rate avg_defect_rate
         else if flt (of_col (Actual_Output rec)) (fmul (of_col (Target_Output rec)) (Fin (6 / 10)))
                 \<and> 0 < Target_Output rec
         then Output_below_target (Actual_Output rec) (Target_Output rec)
         else Unusual_pattern)"

record anomaly =
  anomaly_machine_id :: string
  anomaly_date :: string
  anomaly_shift :: string
  anomaly_message :: reason
  anomaly_confidence :: int

type_synonym matrix = "(fnum \<times> fnum \<times> fnum) list"

text \<open>
  The inner loop over the flagged positions. It stops at the first exception and keeps
  what it has appended and drawn so far. The key of the row is looked up before the
  reason is determined, and the date and shift are read before the confidence is drawn.
\<close>

fun append_anomalies ::
  "dataframe \<Rightarrow> string \<Rightarrow> nat list \<Rightarrow> anomaly list \<times> world \<Rightarrow> error option \<times> anomaly list \<times> world" where
  "append_anomalies original_df machine_id [] (anomalies, w) = (None, anomalies, w)"
| "append_anomalies original_df machine_id (idx # idxs) (anomalies, w) =
     (if \<not> idx < length (rows original_df) then (Some KeyError, anomalies, w)
      else let anomaly_record = rows original_df ! idx;
               reason = determine_anomaly_reason anomaly_record original_df
           in if \<not> has_columns original_df [''Date'', ''Shift''] then (Some KeyError, anomalies, w)
              else let (c, g) = randint 70 95 (rng w)
                   in append_anomalies original_df machine_id idxs
                        (anomalies @ [\<lparr>anomaly_machine_id = machine_id,
                                       anomaly_date = Date anomaly_record,
                                       anomaly_shift = Shift anomaly_record,
                                       anomaly_message = reason,
                                       anomaly_confidence = c\<rparr>],
                         w\<lparr>rng := g\<rparr>))"

text \<open>
  The body of the loop over the machines. The scaler and the isolation forest are library
  code; they are parameters, each a function of the matrix that may raise. Whatever is
  raised inside the \<open>try\<close> block is printed and the loop goes on.
\<close>

definition detect_machine ::
  "(matrix \<Rightarrow> error + matrix) \<Rightarrow> (matrix \<Rightarrow> error + int list) \<Rightarrow> dataframe \<Rightarrow> feature_row list
     \<Rightarrow> string \<Rightarrow> anomaly list \<times> world \<Rightarrow> anomaly list \<times> world" where
  "detect_machine scaler forest original_df feature_df machine_id s =
     (case s of (anomalies, w) \<Rightarrow>
      let machine_features = filter (\<lambda>f. f_machine_id f = machine_id) feature_df in
      if length machine_features < 5 then (anomalies, w)
      else
        let X = map (\<lambda>f. (f_efficiency f, f_defect_rate f, f_downtime_per_unit f)) machine_features
        in case bind_err (scaler X) forest of
             Inl e \<Rightarrow> (anomalies, w\<lparr>stdout := stdout w @ [(machine_id, e)]\<rparr>)
           | Inr preds \<Rightarrow>
               let positions = filter (\<lambda>i. preds ! i = - 1) [0..<length preds] in
               if \<not> list_all (\<lambda>i. i < length machine_features) positions
               then (anomalies, w\<lparr>stdout := stdout w @ [(machine_id, IndexError)]\<rparr>)
               else
                 let anomaly_indices = map (\<lambda>i. f_index (machine_features ! i)) positions
                 in case append_anomalies original_df machine_id anomaly_indices (anomalies, w) of
                      (None, anomalies', w') \<Rightarrow> (anomalies', w')
                    | (Some e, anomalies', w') \<Rightarrow>
                        (anomalies', w'\<lparr>stdout := stdout w' @ [(machine_id, e)]\<rparr>))"

text \<open>\<open>unique()\<close>: the distinct values in order of first appearance.\<close>

definition unique :: "'a list \<Rightarrow> 'a list" where
  "unique xs = rev (remdups (rev xs))"

definition detect_over ::
  "(matrix \<Rightarrow> error + matrix) \<Rightarrow> (matrix \<Rightarrow> error + int list) \<Rightarrow> dataframe \<Rightarrow> feature_row list
     \<Rightarrow> string list \<Rightarrow> world \<Rightarrow> anomaly list \<times> world" where
  "detect_over scaler forest original_df feature_df machine_ids w =
     fold (detect_machine scaler forest original_df feature_df) machine_ids ([], w)"

definition detect_anomalies ::
  "(matrix \<Rightarrow> error + matrix) \<Rightarrow> (matrix \<Rightarrow> error + int list) \<Rightarrow> dataframe \<Rightarrow> world
     \<Rightarrow> (error + anomaly list) \<times> world" where
  "detect_anomalies scaler forest df w =
     (case prepare_anomaly_features df of
        Inl e \<Rightarrow> (Inl e, w)
      | Inr None \<Rightarrow> (Inr [], w)
      | Inr (Some (feature_df, original_df)) \<Rightarrow>
          if feature_df = [] then (Inr [], w)
          else (case detect_over scaler forest original_df feature_df
                       (unique (map f_machine_id feature_df)) w of
                  (anomalies, w') \<Rightarrow> (Inr anomalies, w')))"

section \<open>Concrete tables\<close>

definition mk_row :: "string \<Rightarrow> int \<Rightarrow> int \<Rightarrow> int \<Rightarrow> int \<Rightarrow> nat \<Rightarrow> shift_record" where
  "mk_row m target actual defects downtime t =
     \<lparr>Date = ''2024-01-01'', Shift = ''Morning'', Machine_ID = m, Target_Output = target,
      Actual_Output = actual, Defects = defects, Downtime_Minutes = downtime, DateTime = t\<rparr>"


definition world0 :: world where
  "world0 = \<lparr>rng = [7, 3], model_file = NoFile, stdout = []\<rparr>"

definition table2 :: dataframe where
  "table2 = \<lparr>columns = schema,
              rows = [mk_row ''M1'' 100 100 0 0 1, mk_row ''M1'' 100 100 0 0 2,
                      mk_row ''M1'' 100 100 0 0 3]\<rparr>"



text \<open>
  A table with one machine group of three rows, one of them with a zero target and a
  positive output.
\<close>

definition table5 :: dataframe where
  "table5 = \<lparr>columns = schema,
              rows = [mk_row ''M1'' 0 50 0 0 1, mk_row ''M1'' 100 100 0 0 2,
                      mk_row ''M1'' 100 100 0 0 3]\<rparr>"

text \<open>
  Six rows of machine M1; the fourth has 50 minutes of downtime, a tenth of the target
  output and half of its output defective.
\<close>

definition table6 :: dataframe where
  "table6 = \<lparr>columns = schema,
              rows = [mk_row ''M1'' 100 100 0 0 1, mk_row ''M1'' 100 100 0 0 2,
                      mk_row ''M1'' 100 100 0 0 3, mk_row ''M1'' 100 10 5 50 4,
                      mk_row ''M1'' 100 100 0 0 5, mk_row ''M1'' 100 100 0 0 6]\<rparr>"

text \<open>
  Two machines: five identical rows of M1, and five rows of M2 of which the first has a
  zero target and a zero output.
\<close>

definition table7 :: dataframe where
  "table7 = \<lparr>columns = schema,
              rows = [mk_row ''M2'' 0 0 0 30 1, mk_row ''M1'' 100 100 0 0 2,
                      mk_row ''M2'' 100 50 5 0 3, mk_row ''M1'' 100 100 0 0 4,
                      mk_row ''M2'' 100 100 0 0 5, mk_row ''M1'' 100 100 0 0 6,
                      mk_row ''M2'' 100 100 0 0 7, mk_row ''M1'' 100 100 0 0 8,
                      mk_row ''M2'' 100 100 0 0 9, mk_row ''M1'' 100 100 0 0 10]\<rparr>"

text \<open>The same rows in a table that lacks the column of the defects.\<close>

definition table8 :: dataframe where
  "table8 = \<lparr>columns = filter (\<lambda>c. c \<noteq> ''Defects'') schema, rows = rows table7\<rparr>"

text \<open>
  Stand-ins for the library's scaler and outlier detector, for evaluating the engine on the
  concrete tables: a scaler that returns the matrix as it is, and a detector that raises
  on a matrix whose rows are all equal and otherwise flags the first row.
\<close>

definition scaler0 :: "matrix \<Rightarrow> error + matrix" where
  "scaler0 X = Inr X"

definition forest0 :: "matrix \<Rightarrow> error + int list" where
  "forest0 X = (if list_all (\<lambda>x. x = hd X) X then Inl FitError
                else Inr (- 1 # replicate (length X - 1) 1))"

text \<open>The table without rows that \<open>load_data\<close> creates when there is no file.\<close>

definition empty_table :: dataframe where
  "empty_table = \<lparr>columns = schema, rows = []\<rparr>"

section \<open>What the claims say\<close>




text \<open>
  The target advice as the specification words it, again with the rounding function left
  open. The average efficiency is the one the code computes.
\<close>

fun fval :: "fnum \<Rightarrow> rat" where
  "fval (Fin a) = a"
| "fval x = 0"

definition claimed_target :: "(rat \<Rightarrow> int) \<Rightarrow> shift_record list \<Rightarrow> target_result" where
  "claimed_target rnd m =
     (let avg_efficiency =
            mean (map (\<lambda>r. fdiv (of_col (Actual_Output r)) (of_col (Target_Output r))) m);
          avg_output = of_int (sum_list (map Actual_Output m)) / of_nat (length m);
          max_output = of_int (Max (set (map Actual_Output m)))
      in if fge avg_efficiency (Fin (95 / 100))
         then \<lparr>optimal_target = Some (max (rnd (max_output * (105 / 100))) (rnd (avg_output * (11 / 10)))),
               confidence = 80, message = Can_increase\<rparr>
         else if fge avg_efficiency (Fin (8 / 10))
         then \<lparr>optimal_target = Some (rnd (avg_output / fval avg_efficiency)),
               confidence = 70, message = Maintain\<rparr>
         else \<lparr>optimal_target = Some (rnd (avg_output * (11 / 10))),
               confidence = 60, message = Consider_adjustment\<rparr>)"

text \<open>
  The shape of the target advisor's result: a confidence among 0, 60, 70 and 80, and no
  target exactly when the machine has fewer than three rows, which is exactly when the
  confidence is 0. An exception is outside the shape.
\<close>

definition advice_ok :: "dataframe \<Rightarrow> string \<Rightarrow> error + target_result \<Rightarrow> bool" where
  "advice_ok df machine_id res =
     (case res of Inl e \<Rightarrow> False
      | Inr r \<Rightarrow>
          confidence r \<in> set [0, 60, 70, 80] \<and>
          (optimal_target r = None) = (length (select_machine df machine_id) < 3) \<and>
          (optimal_target r = None) = (confidence r = 0))"

text \<open>
  The averages of a machine as the attribution procedure and the target advisor compute
  them, and the record's own ratios as the attribution procedure computes them.
\<close>

definition avg_efficiency :: "shift_record list \<Rightarrow> fnum" where
  "avg_efficiency machine_data =
     mean (map (\<lambda>r. fdiv (of_col (Actual_Output r)) (of_col (Target_Output r))) machine_data)"

definition avg_defect_rate :: "shift_record list \<Rightarrow> fnum" where
  "avg_defect_rate machine_data =
     mean (map (\<lambda>r. fdiv (of_col (Defects r)) (of_col (Actual_Output r))) machine_data)"

definition avg_downtime :: "shift_record list \<Rightarrow> fnum" where
  "avg_downtime machine_data = mean (map (of_col \<circ> Downtime_Minutes) machine_data)"

definition record_efficiency :: "shift_record \<Rightarrow> fnum" where
  "record_efficiency rec =
     (if 0 < Target_Output rec then fdiv (of_col (Actual_Output rec)) (of_col (Target_Output rec))
      else Fin 0)"

definition record_defect_rate :: "shift_record \<Rightarrow> fnum" where
  "record_defect_rate rec =
     (if 0 < Actual_Output rec then fdiv (of_col (Defects rec)) (of_col (Actual_Output rec))
      else Fin 0)"

text \<open>The conditions of the rules (a) to (d) of the attribution procedure.\<close>

definition rule_a :: "shift_record \<Rightarrow> dataframe \<Rightarrow> bool" where
  "rule_a rec df =
     (fgt (of_col (Downtime_Minutes rec))
          (fmul (avg_downtime (select_machine df (Machine_ID rec))) (Fin 2))
      \<and> 10 < Downtime_Minutes rec)"

definition rule_b :: "shift_record \<Rightarrow> dataframe \<Rightarrow> bool" where
  "rule_b rec df =
     (flt (record_efficiency rec)
          (fmul (avg_efficiency (select_machine df (Machine_ID rec))) (Fin (7 / 10)))
      \<and> fgt (avg_efficiency (select_machine df (Machine_ID rec))) (Fin 0))"

definition rule_c :: "shift_record \<Rightarrow> dataframe \<Rightarrow> bool" where
  "rule_c rec df =
     (fgt (record_defect_rate rec)
          (fadd (fmul (avg_defect_rate (select_machine df (Machine_ID rec))) (Fin (15 / 10)))
                (Fin (5 / 100)))
      \<and> fgt (record_defect_rate rec) (Fin (1 / 10)))"

definition rule_d :: "shift_record \<Rightarrow> dataframe \<Rightarrow> bool" where
  "rule_d rec df =
     (flt (of_col (Actual_Output rec)) (fmul (of_col (Target_Output rec)) (Fin (6 / 10)))
      \<and> 0 < Target_Output rec)"

definition first_match :: "shift_record \<Rightarrow> dataframe \<Rightarrow> reason" where
  "first_match rec df =
     (let machine_data = select_machine df (Machine_ID rec) in
      if rule_a rec df then Unusual_downtime (Downtime_Minutes rec) (avg_downtime machine_data)
      else if rule_b rec df
      then Efficiency_dropped (record_efficiency rec) (avg_efficiency machine_data)
      else if rule_c rec df
      then High_defect_rate (record_defect_rate rec) (avg_defect_rate machine_data)
      else if rule_d rec df then Output_below_target (Actual_Output rec) (Target_Output rec)
      else Unusual_pattern)"

text \<open>
  The average efficiency as the specification words it: the mean of the rows' ratios, a
  ratio with a zero denominator counting as 0.
\<close>

definition floored_avg_efficiency :: "shift_record list \<Rightarrow> rat" where
  "floored_avg_efficiency machine_data =
     sum_list (map (\<lambda>r. if Target_Output r = 0 then 0
                         else of_int (Actual_Output r) / of_int (Target_Output r)) machine_data)
     / of_nat (length machine_data)"

text \<open>
  A derived ratio is in order if it is finite and is the quotient, or exactly 0 for a zero
  denominator; a feature row is in order if it points at a row of the table and its three
  ratios are in order for that row.
\<close>

definition ratio_ok :: "int \<Rightarrow> int \<Rightarrow> fnum \<Rightarrow> bool" where
  "ratio_ok num den x =
     (is_finite x \<and> x = (if den = 0 then Fin 0 else Fin (of_int num / of_int den)))"

definition feature_ok :: "dataframe \<Rightarrow> feature_row \<Rightarrow> bool" where
  "feature_ok df f =
     (f_index f < length (rows df) \<and>
      (let r = rows df ! f_index f in
         f_machine_id f = Machine_ID r \<and>
         ratio_ok (Actual_Output r) (Target_Output r) (f_efficiency f) \<and>
         ratio_ok (Defects r) (Actual_Output r) (f_defect_rate f) \<and>
         ratio_ok (Downtime_Minutes r) (Actual_Output r) (f_downtime_per_unit f)))"

definition features_ok :: "dataframe \<Rightarrow> error + (feature_row list \<times> dataframe) option \<Rightarrow> bool" where
  "features_ok df res =
     (case res of Inr (Some (feature_df, original_df)) \<Rightarrow> list_all (feature_ok df) feature_df
      | Inr None \<Rightarrow> True
      | Inl e \<Rightarrow> \<not> has_columns df [''Machine_ID''])"

text \<open>The tables for which the feature deriver has not enough data.\<close>

definition not_enough_data :: "dataframe \<Rightarrow> bool" where
  "not_enough_data df =
     (columns df = [] \<or> rows df = [] \<or> length (rows df) < 5 \<or> \<not> has_columns df numeric_cols)"

text \<open>
  The fit of a machine's group fails if the scaler or the detector raises on the matrix of
  the group's features.
\<close>

definition fit_fails ::
  "(matrix \<Rightarrow> error + matrix) \<Rightarrow> (matrix \<Rightarrow> error + int list) \<Rightarrow> feature_row list \<Rightarrow> string \<Rightarrow> bool" where
  "fit_fails scaler forest feature_df machine_id =
     (case bind_err (scaler (map (\<lambda>f. (f_efficiency f, f_defect_rate f, f_downtime_per_unit f))
                              (filter (\<lambda>f. f_machine_id f = machine_id) feature_df))) forest of
        Inl e \<Rightarrow> True | Inr preds \<Rightarrow> False)"

text \<open>
  What a caller sees of the loop's state: the anomalies and the generator. Running an
  analytic a second time from the state the first run has left, with the generator put
  back, gives the pair of the two results.
\<close>

definition obs :: "anomaly list \<times> world \<Rightarrow> anomaly list \<times> nat list" where
  "obs s = (fst s, rng (snd s))"

definition rerun :: "(world \<Rightarrow> 'a \<times> world) \<Rightarrow> world \<Rightarrow> 'a \<times> 'a" where
  "rerun f w = (let (r1, w1) = f w; (r2, w2) = f (w1\<lparr>rng := rng w\<rparr>) in (r1, r2))"

text \<open>The feature frame of a table, empty if the deriver returns none.\<close>

definition features_of :: "dataframe \<Rightarrow> feature_row list" where
  "features_of df =
     (case prepare_anomaly_features df of Inr (Some (feature_df, original_df)) \<Rightarrow> feature_df
      | _ \<Rightarrow> [])"

section \<open>Properties\<close>

subsection \<open>Helper facts\<close>

lemma trunc_nonneg: "0 \<le> x \<Longrightarrow> 0 \<le> trunc x"
  by (simp add: trunc_def)




lemma has_columns_schema:
  "has_columns df schema \<Longrightarrow> list_all (\<lambda>c. c \<in> set schema) cs \<Longrightarrow> has_columns df cs"
  by (auto simp: has_columns_def list_all_iff)




subsection \<open>Risk scorer: range of the result\<close>



subsection \<open>Target advisor\<close>

lemma foldl_fadd_Fin:
  "foldl fadd (Fin a) (map (of_col \<circ> f) xs) = Fin (a + of_int (sum_list (map f xs)))"
  by (induction xs arbitrary: a) (auto simp: of_col_def)

lemma mean_of_col:
  "xs \<noteq> [] \<Longrightarrow> mean (map (of_col \<circ> f) xs) = Fin (of_int (sum_list (map f xs)) / of_nat (length xs))"
proof -
  assume ne: "xs \<noteq> []"
  have flt: "filter (\<lambda>x. x \<noteq> NaN) (map (of_col \<circ> f) xs) = map (of_col \<circ> f) xs"
    by (induction xs) (auto simp: of_col_def)
  show ?thesis
    using ne foldl_fadd_Fin [of 0 f xs] by (simp add: mean_def flt Let_def)
qed

lemma col_max_Max:
  "col_max xs = (if xs = [] then NaN else Fin (of_int (Max (set xs))))"
proof (cases xs)
  case Nil
  then show ?thesis by simp
next
  case (Cons a list)
  show ?thesis
    using Max.set_eq_fold [of a list] by (simp add: Cons of_col_def)
qed

lemma fge_Fin_cases:
  "fge x (Fin c) \<Longrightarrow> x = PInf \<or> (\<exists>e. x = Fin e \<and> c \<le> e)"
  by (cases x) (auto simp: fge_def)

lemma not_fge_Fin:
  "\<not> fge x (Fin c) \<Longrightarrow> fge x (Fin d) \<Longrightarrow> \<exists>e. x = Fin e \<and> d \<le> e \<and> e < c"
  by (cases x) (auto simp: fge_def)

lemma predict_production_targets_eq:
  assumes "has_columns df schema" and "3 \<le> length (select_machine df machine_id)"
  shows "predict_production_targets df machine_id =
           Inr (claimed_target trunc (select_machine df machine_id))"
proof -
  let ?m = "select_machine df machine_id"
  let ?e = "mean (map (\<lambda>r. fdiv (of_col (Actual_Output r)) (of_col (Target_Output r))) ?m)"
  have ne: "?m \<noteq> []" using assms(2) by auto
  have c1: "has_columns df [''Machine_ID'']" and c2: "has_columns df [''Actual_Output'', ''Target_Output'']"
    using assms(1) by (auto simp: schema_def has_columns_def)
  have avg: "mean (map (of_col \<circ> Actual_Output) ?m) = Fin (of_int (sum_list (map Actual_Output ?m)) / of_nat (length ?m))"
    using ne by (rule mean_of_col)
  have mx: "col_max (map Actual_Output ?m) = Fin (of_int (Max (set (map Actual_Output ?m))))"
    using ne by (simp add: col_max_Max)
  consider (hi) "fge ?e (Fin (95 / 100))"
    | (mid) "\<not> fge ?e (Fin (95 / 100))" "fge ?e (Fin (8 / 10))"
    | (lo) "\<not> fge ?e (Fin (95 / 100))" "\<not> fge ?e (Fin (8 / 10))" by blast
  then show ?thesis
  proof cases
    case hi
    then show ?thesis
      using ne assms(2) c1 c2
      by (simp add: predict_production_targets_def claimed_target_def Let_def avg mx bind_err_def)
  next
    case mid
    then obtain e where e: "?e = Fin e" "8 / 10 \<le> e" using not_fge_Fin by blast
    then have "e \<noteq> 0" by auto
    then show ?thesis
      using mid e ne assms(2) c1 c2
      by (simp add: predict_production_targets_def claimed_target_def Let_def avg mx bind_err_def)
  next
    case lo
    then show ?thesis
      using ne assms(2) c1 c2
      by (simp add: predict_production_targets_def claimed_target_def Let_def avg mx bind_err_def)
  qed
qed




text \<open>
  Claim C10. For a table with the schema's columns and every machine id,
  \<open>predict_production_targets\<close> returns (raising nothing) a result whose confidence is one of
  0, 60, 70 and 80 and whose target is absent exactly when the machine has fewer than three
  rows, which is exactly when the confidence is 0; otherwise the target is an integer.
\<close>

theorem predict_production_targets_shape:
  assumes "has_columns df schema"
  shows "advice_ok df machine_id (predict_production_targets df machine_id)"
proof (cases "length (select_machine df machine_id) < 3")
  case True
  have "has_columns df [''Machine_ID'']"
    using assms by (auto simp: schema_def has_columns_def)
  then show ?thesis
    using True by (simp add: predict_production_targets_def advice_ok_def Let_def)
next
  case False
  then have "predict_production_targets df machine_id =
           Inr (claimed_target trunc (select_machine df machine_id))"
    using assms predict_production_targets_eq by simp
  then show ?thesis
    using False by (simp add: advice_ok_def claimed_target_def Let_def)
qed

theorem predict_production_targets_shape_witness:
  "has_columns table2 schema
   \<and> advice_ok table2 ''M1'' (predict_production_targets table2 ''M1'')
   \<and> advice_ok table2 ''M7'' (predict_production_targets table2 ''M7'')"
proof -
  have h: "has_columns table2 schema"
    by (simp add: table2_def schema_def has_columns_def)
  show ?thesis
    using h predict_production_targets_shape [OF h, of "''M1''"]
      predict_production_targets_shape [OF h, of "''M7''"] by simp
qed

subsection \<open>Risk scorer: the score\<close>







subsection \<open>Attribution procedure\<close>

text \<open>
  Claim C2. \<open>determine_anomaly_reason\<close> evaluates the rules in the order (a) unusual
  downtime, (b) efficiency dropped, (c) high defect rate, (d) output below target, (e)
  generic message, and the first rule whose condition holds gives the reason. For every
  record and table for which the condition of rule (a) holds, the reason is the unusual
  downtime, whatever the conditions of (b) to (d) are.
\<close>

theorem determine_anomaly_reason_first_match:
  "determine_anomaly_reason rec df = first_match rec df
   \<and> (rule_a rec df \<longrightarrow>
        determine_anomaly_reason rec df =
          Unusual_downtime (Downtime_Minutes rec)
            (avg_downtime (select_machine df (Machine_ID rec))))"
  by (simp add: determine_anomaly_reason_def first_match_def rule_a_def rule_b_def rule_c_def
      rule_d_def avg_downtime_def avg_efficiency_def avg_defect_rate_def record_efficiency_def
      record_defect_rate_def Let_def)

theorem determine_anomaly_reason_first_match_witness:
  "rule_a (rows table6 ! 3) table6 \<and> rule_b (rows table6 ! 3) table6
   \<and> rule_c (rows table6 ! 3) table6 \<and> rule_d (rows table6 ! 3) table6
   \<and> determine_anomaly_reason (rows table6 ! 3) table6 = Unusual_downtime 50 (Fin (25 / 3))"
proof -
  have r: "rule_a (rows table6 ! 3) table6 \<and> rule_b (rows table6 ! 3) table6
      \<and> rule_c (rows table6 ! 3) table6 \<and> rule_d (rows table6 ! 3) table6"
    by code_simp
  have v: "Unusual_downtime (Downtime_Minutes (rows table6 ! 3))
            (avg_downtime (select_machine table6 (Machine_ID (rows table6 ! 3))))
          = Unusual_downtime 50 (Fin (25 / 3))"
    by code_simp
  have d: "determine_anomaly_reason (rows table6 ! 3) table6 =
          Unusual_downtime (Downtime_Minutes (rows table6 ! 3))
            (avg_downtime (select_machine table6 (Machine_ID (rows table6 ! 3))))"
    using r determine_anomaly_reason_first_match [of "rows table6 ! 3" table6] by blast
  have "determine_anomaly_reason (rows table6 ! 3) table6 = Unusual_downtime 50 (Fin (25 / 3))"
    using d v by (rule trans)
  then show ?thesis
    using r by blast
qed

text \<open>
  Claim C3 says that in the attribution procedure and in the target advisor a row's ratio
  with a zero denominator counts as 0 in the machine's averages, so that they are finite.
  The code divides the columns and takes the mean without the guard that the feature
  deriver and the record's own ratios have: for a machine with a row of zero target and
  positive output the average efficiency is infinite where the floored mean is 2/3, a row
  of efficiency 1 is attributed a drop of efficiency against an infinite average, and the
  advisor answers with confidence 80.
\<close>

theorem averages_not_floored:
  "avg_efficiency (select_machine table5 ''M1'') = PInf
   \<and> floored_avg_efficiency (select_machine table5 ''M1'') = 2 / 3
   \<and> determine_anomaly_reason (rows table5 ! 1) table5 = Efficiency_dropped (Fin 1) PInf
   \<and> predict_production_targets table5 ''M1'' =
        Inr \<lparr>optimal_target = Some 105, confidence = 80, message = Can_increase\<rparr>"
  by code_simp

subsection \<open>Feature deriver\<close>

text \<open>
  Claim C8. For a table that is empty, has fewer than five rows or lacks one of the five
  numeric columns, the feature deriver returns no features and \<open>detect_anomalies\<close> returns
  the empty list, raising nothing and leaving the state as it is.
\<close>

theorem not_enough_data_empty_result:
  assumes "not_enough_data df"
  shows "prepare_anomaly_features df = Inr None
         \<and> detect_anomalies scaler forest df w = (Inr [], w)"
proof -
  have p: "prepare_anomaly_features df = Inr None"
    using assms by (auto simp: not_enough_data_def prepare_anomaly_features_def)
  then show ?thesis
    by (simp add: detect_anomalies_def)
qed

theorem not_enough_data_empty_result_witness:
  "not_enough_data empty_table \<and> not_enough_data table5 \<and> not_enough_data table8
   \<and> detect_anomalies scaler0 forest0 empty_table world0 = (Inr [], world0)
   \<and> detect_anomalies scaler0 forest0 table5 world0 = (Inr [], world0)
   \<and> detect_anomalies scaler0 forest0 table8 world0 = (Inr [], world0)"
proof -
  have a: "not_enough_data empty_table" by code_simp
  have b: "not_enough_data table5" by code_simp
  have c: "not_enough_data table8" by code_simp
  show ?thesis
    using a b c not_enough_data_empty_result [OF a, of scaler0 forest0 world0]
      not_enough_data_empty_result [OF b, of scaler0 forest0 world0]
      not_enough_data_empty_result [OF c, of scaler0 forest0 world0] by simp
qed

lemma clean_ratio:
  "replace_inf (fillna (fdiv (of_col a) (of_col b))) =
     (if b = 0 then Fin 0 else Fin (of_int a / of_int b))"
  by (simp add: replace_inf_def fillna_def of_col_def)

lemma ratio_ok_clean: "ratio_ok a b (replace_inf (fillna (fdiv (of_col a) (of_col b))))"
  by (simp add: ratio_ok_def clean_ratio)

lemma group_features_ok:
  assumes "f \<in> set (group_features m (filter (\<lambda>(i, r). Machine_ID r = m) (enumerate 0 (rows df))))"
  shows "feature_ok df f"
proof -
  obtain i r where ir: "(i, r) \<in> set (enumerate 0 (rows df))" and mr: "Machine_ID r = m"
    and f: "f = \<lparr>f_efficiency =
              replace_inf (fillna (fdiv (of_col (Actual_Output r)) (of_col (Target_Output r)))),
            f_defect_rate =
              replace_inf (fillna (fdiv (of_col (Defects r)) (of_col (Actual_Output r)))),
            f_downtime_per_unit =
              replace_inf (fillna (fdiv (of_col (Downtime_Minutes r)) (of_col (Actual_Output r)))),
            f_machine_id = m,
            f_index = i\<rparr>"
    using assms by (auto simp: group_features_def)
  have i: "i < length (rows df)" and r: "rows df ! i = r"
    using ir by (auto simp: in_set_enumerate_eq)
  show ?thesis
    using i r mr by (simp add: feature_ok_def f ratio_ok_clean)
qed

text \<open>
  Claim C7. Every feature row that \<open>prepare_anomaly_features\<close> derives points at a row of the
  table, and its efficiency, defect rate and downtime per unit are finite: the quotient for
  a non-zero denominator and exactly 0 for a zero denominator. The division raises
  nothing; the only exception is the \<open>KeyError\<close> of a table without the machine column.
\<close>

theorem derived_ratios_finite:
  "features_ok df (prepare_anomaly_features df)"
proof -
  have "feature_ok df f"
    if asm: "f \<in> set (concat (map (\<lambda>(machine_id, grp). group_features machine_id grp)
                     (filter (\<lambda>(machine_id, grp). \<not> length grp < 3) (groupby df))))" for f
  proof -
    obtain m g where mg: "(m, g) \<in> set (groupby df)" and fm: "f \<in> set (group_features m g)"
      using asm by fastforce
    have "g = filter (\<lambda>(i, r). Machine_ID r = m) (enumerate 0 (rows df))"
      using mg by (auto simp: groupby_def)
    then show ?thesis
      using fm group_features_ok by simp
  qed
  then show ?thesis
    by (auto simp: features_ok_def prepare_anomaly_features_def Let_def list_all_iff)
qed

theorem derived_ratios_finite_witness:
  "features_ok table7 (prepare_anomaly_features table7)
   \<and> (case prepare_anomaly_features table7 of
         Inr (Some (feature_df, original_df)) \<Rightarrow>
           length feature_df = 10 \<and> f_index (feature_df ! 5) = 0
           \<and> f_efficiency (feature_df ! 5) = Fin 0 \<and> f_defect_rate (feature_df ! 5) = Fin 0
           \<and> f_downtime_per_unit (feature_df ! 5) = Fin 0
           \<and> f_efficiency (feature_df ! 6) = Fin (1 / 2)
       | _ \<Rightarrow> False)"
proof -
  have c: "(case prepare_anomaly_features table7 of
         Inr (Some (feature_df, original_df)) \<Rightarrow>
           length feature_df = 10 \<and> f_index (feature_df ! 5) = 0
           \<and> f_efficiency (feature_df ! 5) = Fin 0 \<and> f_defect_rate (feature_df ! 5) = Fin 0
           \<and> f_downtime_per_unit (feature_df ! 5) = Fin 0
           \<and> f_efficiency (feature_df ! 6) = Fin (1 / 2)
       | _ \<Rightarrow> False)"
    by code_simp
  show ?thesis
    using c derived_ratios_finite [of table7] by simp
qed

subsection \<open>Anomaly engine and the state\<close>

lemma append_anomalies_obs:
  assumes "rng w = rng w'"
  shows "fst (append_anomalies df m idxs (acc, w)) = fst (append_anomalies df m idxs (acc, w'))
       \<and> obs (snd (append_anomalies df m idxs (acc, w)))
           = obs (snd (append_anomalies df m idxs (acc, w')))"
  using assms
proof (induction idxs arbitrary: acc w w')
  case Nil
  then show ?case by (simp add: obs_def)
next
  case (Cons idx idxs)
  show ?case
  proof (cases "idx < length (rows df) \<and> has_columns df [''Date'', ''Shift'']")
    case False
    then show ?thesis using Cons.prems by (auto simp: obs_def Let_def)
  next
    case True
    obtain c g where cg: "randint 70 95 (rng w) = (c, g)" by (cases "randint 70 95 (rng w)")
    then have cg': "randint 70 95 (rng w') = (c, g)" using Cons.prems by simp
    have "rng (w\<lparr>rng := g\<rparr>) = rng (w'\<lparr>rng := g\<rparr>)" by simp
    from Cons.IH [OF this] show ?thesis
      using True cg cg' by (simp add: Let_def)
  qed
qed

lemma obs_stdout: "obs (acc, w\<lparr>stdout := x\<rparr>) = obs (acc, w)"
  by (simp add: obs_def)

lemma obs_handler:
  "obs (case r of (None, anomalies', w') \<Rightarrow> (anomalies', w')
             | (Some e, anomalies', w') \<Rightarrow> (anomalies', w'\<lparr>stdout := stdout w' @ [(m, e)]\<rparr>))
   = obs (snd r)"
proof -
  obtain eo acc w where r: "r = (eo, acc, w)" by (cases r)
  show ?thesis
    by (cases eo) (simp_all add: r obs_def)
qed

lemma fst_result: "fst (case p of (anomalies, w') \<Rightarrow> (Inr anomalies, w')) = Inr (fst p)"
  by (cases p) simp

lemma detect_machine_obs:
  assumes "obs s = obs s'"
  shows "obs (detect_machine scaler forest df fdf m s) = obs (detect_machine scaler forest df fdf m s')"
proof -
  obtain acc w where s: "s = (acc, w)" by (cases s)
  obtain acc' w' where s': "s' = (acc', w')" by (cases s')
  have e: "acc' = acc" "rng w = rng w'" using assms by (simp_all add: s s' obs_def)
  have o: "obs (acc, w) = obs (acc, w')" using e(2) by (simp add: obs_def)
  define mf where "mf = filter (\<lambda>f. f_machine_id f = m) fdf"
  define X where "X = map (\<lambda>f. (f_efficiency f, f_defect_rate f, f_downtime_per_unit f)) mf"
  show ?thesis
  proof (cases "length mf < 5")
    case True
    then show ?thesis
      using o by (simp add: s s' e(1) detect_machine_def mf_def)
  next
    case long: False
    show ?thesis
    proof (cases "bind_err (scaler X) forest")
      case (Inl err)
      then show ?thesis
        using long o
        by (simp add: s s' e(1) detect_machine_def mf_def [symmetric] X_def [symmetric] obs_stdout)
    next
      case (Inr preds)
      define positions where "positions = filter (\<lambda>i. preds ! i = - 1) [0..<length preds]"
      show ?thesis
      proof (cases "list_all (\<lambda>i. i < length mf) positions")
        case False
        then show ?thesis
          using long o Inr
          by (simp add: s s' e(1) detect_machine_def mf_def [symmetric] X_def [symmetric]
              positions_def [symmetric] obs_stdout)
      next
        case True
        have "obs (snd (append_anomalies df m (map (\<lambda>i. f_index (mf ! i)) positions) (acc, w)))
            = obs (snd (append_anomalies df m (map (\<lambda>i. f_index (mf ! i)) positions) (acc, w')))"
          using append_anomalies_obs [OF e(2)] by blast
        then show ?thesis
          using long Inr True
          by (simp add: s s' e(1) detect_machine_def mf_def [symmetric] X_def [symmetric]
              positions_def [symmetric] obs_handler)
      qed
    qed
  qed
qed

lemma fold_detect_machine_obs:
  "obs s = obs s' \<Longrightarrow>
   obs (fold (detect_machine scaler forest df fdf) ms s)
     = obs (fold (detect_machine scaler forest df fdf) ms s')"
proof (induction ms arbitrary: s s')
  case Nil
  then show ?case by simp
next
  case (Cons m ms)
  have "obs (detect_machine scaler forest df fdf m s) = obs (detect_machine scaler forest df fdf m s')"
    using Cons.prems by (rule detect_machine_obs)
  from Cons.IH [OF this] show ?case
    by simp
qed

lemma detect_machine_fails:
  assumes "fit_fails scaler forest fdf m"
  shows "obs (detect_machine scaler forest df fdf m s) = obs s"
proof -
  obtain acc w where s: "s = (acc, w)" by (cases s)
  define mf where "mf = filter (\<lambda>f. f_machine_id f = m) fdf"
  define X where "X = map (\<lambda>f. (f_efficiency f, f_defect_rate f, f_downtime_per_unit f)) mf"
  obtain err where err: "bind_err (scaler X) forest = Inl err"
    using assms by (auto simp: fit_fails_def X_def mf_def split: sum.splits)
  show ?thesis
  proof (cases "length mf < 5")
    case True
    then show ?thesis
      by (simp add: s detect_machine_def mf_def)
  next
    case False
    then show ?thesis
      using err
      by (simp add: s detect_machine_def mf_def [symmetric] X_def [symmetric] obs_stdout)
  qed
qed

lemma fold_skip_failing:
  assumes "fit_fails scaler forest fdf m"
  shows "obs (fold (detect_machine scaler forest df fdf) ms s)
       = obs (fold (detect_machine scaler forest df fdf) (removeAll m ms) s)"
proof (induction ms arbitrary: s)
  case Nil
  then show ?case by simp
next
  case (Cons x ms)
  show ?case
  proof (cases "x = m")
    case True
    have "obs (fold (detect_machine scaler forest df fdf) ms (detect_machine scaler forest df fdf m s))
        = obs (fold (detect_machine scaler forest df fdf) ms s)"
      using detect_machine_fails [OF assms] by (rule fold_detect_machine_obs)
    then show ?thesis
      using True Cons.IH [of s] by simp
  next
    case False
    then show ?thesis
      using Cons.IH [of "detect_machine scaler forest df fdf x s"] by simp
  qed
qed

lemma detect_anomalies_rng:
  assumes "rng w = rng w'"
  shows "fst (detect_anomalies scaler forest df w) = fst (detect_anomalies scaler forest df w')"
proof -
  have "obs (fold (detect_machine scaler forest odf fdf) ms ([], w))
      = obs (fold (detect_machine scaler forest odf fdf) ms ([], w'))" for odf fdf ms
    by (rule fold_detect_machine_obs) (simp add: obs_def assms)
  then have d: "fst (detect_over scaler forest odf fdf ms w) = fst (detect_over scaler forest odf fdf ms w')"
    for odf fdf ms
    by (simp add: detect_over_def obs_def)
  show ?thesis
  proof (cases "prepare_anomaly_features df")
    case (Inl e)
    then show ?thesis by (simp add: detect_anomalies_def)
  next
    case (Inr res)
    show ?thesis
    proof (cases res)
      case None
      then show ?thesis using Inr by (simp add: detect_anomalies_def)
    next
      case (Some p)
      obtain fdf odf where p: "p = (fdf, odf)" by (cases p)
      show ?thesis
        using Inr Some p d [of odf fdf "unique (map f_machine_id fdf)"]
        by (simp add: detect_anomalies_def fst_result)
    qed
  qed
qed

lemma predict_downtime_rng:
  assumes "rng w = rng w'"
  shows "fst (predict_downtime df machine_id w) = fst (predict_downtime df machine_id w')"
  using assms
  by (auto simp: predict_downtime_def Let_def split: sum.splits option.splits prod.splits)

text \<open>
  Claim C5. For every table and machine id, each of \<open>detect_anomalies\<close>,
  \<open>predict_downtime\<close> and \<open>predict_production_targets\<close> returns the same output when it is
  called a second time on the unchanged table with the generator in the state of the first
  call, whatever the first call has left in the model file and on the standard output;
  the output includes the confidences of the anomalies and the score and horizon for a
  machine without rows.
\<close>

theorem analytics_idempotent:
  "fst (rerun (detect_anomalies scaler forest df) w) = snd (rerun (detect_anomalies scaler forest df) w)
   \<and> fst (rerun (predict_downtime df machine_id) w) = snd (rerun (predict_downtime df machine_id) w)
   \<and> fst (rerun (\<lambda>w. (predict_production_targets df machine_id, w)) w)
       = snd (rerun (\<lambda>w. (predict_production_targets df machine_id, w)) w)"
proof -
  have r: "fst (rerun f w) = fst (f w) \<and> snd (rerun f w) = fst (f ((snd (f w))\<lparr>rng := rng w\<rparr>))"
    for f :: "world \<Rightarrow> 'b \<times> world"
    by (simp add: rerun_def split: prod.splits)
  have a: "fst (detect_anomalies scaler forest df ((snd (detect_anomalies scaler forest df w))\<lparr>rng := rng w\<rparr>))
         = fst (detect_anomalies scaler forest df w)"
    by (rule detect_anomalies_rng) simp
  have b: "fst (predict_downtime df machine_id ((snd (predict_downtime df machine_id w))\<lparr>rng := rng w\<rparr>))
         = fst (predict_downtime df machine_id w)"
    by (rule predict_downtime_rng) simp
  show ?thesis
    by (simp add: r a b)
qed

text \<open>
  Claim C9. If the scaler or the detector raises on the features of one machine,
  \<open>detect_anomalies\<close> raises nothing: it returns the anomalies that the loop over all the
  other machines gives.
\<close>

theorem detect_anomalies_isolates_failure:
  assumes "prepare_anomaly_features df = Inr (Some (feature_df, original_df))"
    and "fit_fails scaler forest feature_df m"
  shows "fst (detect_anomalies scaler forest df w) =
           Inr (fst (detect_over scaler forest original_df feature_df
                       (removeAll m (unique (map f_machine_id feature_df))) w))"
proof -
  let ?ms = "unique (map f_machine_id feature_df)"
  have "obs (fold (detect_machine scaler forest original_df feature_df) ?ms ([], w))
      = obs (fold (detect_machine scaler forest original_df feature_df) (removeAll m ?ms) ([], w))"
    using assms(2) by (rule fold_skip_failing)
  then have e: "fst (detect_over scaler forest original_df feature_df ?ms w)
      = fst (detect_over scaler forest original_df feature_df (removeAll m ?ms) w)"
    by (simp add: detect_over_def obs_def)
  show ?thesis
  proof (cases "feature_df = []")
    case True
    then show ?thesis
      using assms(1) by (simp add: detect_anomalies_def detect_over_def unique_def)
  next
    case False
    then show ?thesis
      using assms(1) e by (simp add: detect_anomalies_def fst_result)
  qed
qed

theorem detect_anomalies_isolates_failure_witness:
  "prepare_anomaly_features table7 = Inr (Some (features_of table7, table7))
   \<and> fit_fails scaler0 forest0 (features_of table7) ''M1''
   \<and> fst (detect_anomalies scaler0 forest0 table7 world0) =
       Inr [\<lparr>anomaly_machine_id = ''M2'', anomaly_date = ''2024-01-01'',
             anomaly_shift = ''Morning'', anomaly_message = Unusual_downtime 30 (Fin 6),
             anomaly_confidence = 77\<rparr>]"
proof -
  have p: "prepare_anomaly_features table7 = Inr (Some (features_of table7, table7))"
    by code_simp
  have f: "fit_fails scaler0 forest0 (features_of table7) ''M1''"
    by code_simp
  have v: "fst (detect_over scaler0 forest0 table7 (features_of table7)
                  (removeAll ''M1'' (unique (map f_machine_id (features_of table7)))) world0) =
       [\<lparr>anomaly_machine_id = ''M2'', anomaly_date = ''2024-01-01'',
             anomaly_shift = ''Morning'', anomaly_message = Unusual_downtime 30 (Fin 6),
             anomaly_confidence = 77\<rparr>]"
    by code_simp
  show ?thesis
    using p f detect_anomalies_isolates_failure [OF p f, of world0] by (simp only: v simp_thms)
qed

end
